theory Spec2Isabelle
  imports Complex_Main
begin

section \<open>The formula evaluator of src/Engine/FormulaEvaluator.ts\<close>

text \<open>
  The class \<^verbatim>\<open>FormulaEvaluator\<close> evaluates a tokenised infix formula with two stacks.
  Its two private fields are the state that every method threads; its exceptions are
  completions of the model; the sheet memory and the table of error messages, which
  the class imports from other modules, are parameters.
\<close>

subsection \<open>JavaScript numbers\<close>

text \<open>
  A JavaScript number is a finite value, one of the two infinities, or NaN. Finite
  values are modelled as exact rationals: the model agrees with IEEE 754 doubles
  wherever every intermediate value is exactly representable (the small integers of
  the examples below), and it does not model rounding, overflow to infinity, underflow
  or the sign of zero. The theorems about arbitrary formulas use of this arithmetic
  only that the evaluator and the standard reading apply the same four operations,
  the test of a divisor against zero, and that NaN and zero are falsy.
\<close>

datatype jsnum = Fin rat | PInf | NInf | NaN

fun jsneg :: "jsnum \<Rightarrow> jsnum" where
  "jsneg (Fin a) = Fin (- a)"
| "jsneg PInf = NInf"
| "jsneg NInf = PInf"
| "jsneg NaN = NaN"

fun jsadd :: "jsnum \<Rightarrow> jsnum \<Rightarrow> jsnum" where
  "jsadd NaN _ = NaN"
| "jsadd _ NaN = NaN"
| "jsadd PInf NInf = NaN"
| "jsadd NInf PInf = NaN"
| "jsadd PInf _ = PInf"
| "jsadd _ PInf = PInf"
| "jsadd NInf _ = NInf"
| "jsadd _ NInf = NInf"
| "jsadd (Fin a) (Fin b) = Fin (a + b)"

definition jssub :: "jsnum \<Rightarrow> jsnum \<Rightarrow> jsnum" where
  "jssub a b = jsadd a (jsneg b)"

fun isNegative :: "jsnum \<Rightarrow> bool" where
  "isNegative (Fin a) = (a < 0)"
| "isNegative NInf = True"
| "isNegative _ = False"

definition signedInf :: "bool \<Rightarrow> jsnum" where
  "signedInf negative = (if negative then NInf else PInf)"

fun jsmul :: "jsnum \<Rightarrow> jsnum \<Rightarrow> jsnum" where
  "jsmul NaN _ = NaN"
| "jsmul _ NaN = NaN"
| "jsmul (Fin a) (Fin b) = Fin (a * b)"
| "jsmul a b =
     (if a = Fin 0 \<or> b = Fin 0 then NaN
      else signedInf (isNegative a \<noteq> isNegative b))"

fun jsdiv :: "jsnum \<Rightarrow> jsnum \<Rightarrow> jsnum" where
  "jsdiv NaN _ = NaN"
| "jsdiv _ NaN = NaN"
| "jsdiv (Fin a) (Fin b) =
     (if b = 0 then (if a = 0 then NaN else signedInf (a < 0)) else Fin (a / b))"
| "jsdiv (Fin a) _ = Fin 0"
| "jsdiv a (Fin b) = signedInf (isNegative a \<noteq> (b < 0))"
| "jsdiv _ _ = NaN"

text \<open>
  \<^verbatim>\<open>values.pop()\<close> on an empty array returns \<^verbatim>\<open>undefined\<close> and leaves the array
  empty; \<open>None\<close> stands for \<^verbatim>\<open>undefined\<close>. The stacks are lists whose head is the
  last element of the array.
\<close>

fun pop :: "'a list \<Rightarrow> 'a option \<times> 'a list" where
  "pop [] = (None, [])"
| "pop (x # xs) = (Some x, xs)"

fun peek :: "'a list \<Rightarrow> 'a option" where
  "peek [] = None"
| "peek (x # xs) = Some x"

text \<open>The arithmetic operators convert \<^verbatim>\<open>undefined\<close> to NaN.\<close>

fun toNumber :: "jsnum option \<Rightarrow> jsnum" where
  "toNumber None = NaN"
| "toNumber (Some v) = v"

text \<open>\<^verbatim>\<open>x || 0\<close>: \<^verbatim>\<open>undefined\<close>, NaN and zero are falsy.\<close>

fun orZero :: "jsnum option \<Rightarrow> jsnum" where
  "orZero None = Fin 0"
| "orZero (Some NaN) = Fin 0"
| "orZero (Some v) = v"

subsection \<open>\<^verbatim>\<open>Number(token)\<close>\<close>

text \<open>
  The conversion of a string to a number (ECMAScript StringToNumber): white space is
  trimmed; the empty string is 0; otherwise the text is an optionally signed decimal
  literal (digits, fraction, exponent, or \<^verbatim>\<open>Infinity\<close>) or an unsigned binary, octal
  or hexadecimal integer literal; anything else is NaN. A \<open>char\<close> is read as the code
  unit of the same number, so the white space is U+0009 to U+000D, U+0020 and U+00A0.
\<close>

definition isWhiteSpace :: "char \<Rightarrow> bool" where
  "isWhiteSpace c = ((of_char c :: nat) \<in> {9, 10, 11, 12, 13, 32, 160})"

definition trim :: "string \<Rightarrow> string" where
  "trim s = rev (dropWhile isWhiteSpace (rev (dropWhile isWhiteSpace s)))"

definition digitValue :: "char \<Rightarrow> nat option" where
  "digitValue c =
     (let n = (of_char c :: nat) in
      if 48 \<le> n \<and> n \<le> 57 then Some (n - 48)
      else if 97 \<le> n \<and> n \<le> 102 then Some (n - 87)
      else if 65 \<le> n \<and> n \<le> 70 then Some (n - 55)
      else None)"

definition isDigitOf :: "nat \<Rightarrow> char \<Rightarrow> bool" where
  "isDigitOf base c = (case digitValue c of None \<Rightarrow> False | Some d \<Rightarrow> d < base)"

definition digitsValue :: "nat \<Rightarrow> string \<Rightarrow> nat" where
  "digitsValue base ds = foldl (\<lambda>a c. base * a + (case digitValue c of None \<Rightarrow> 0 | Some d \<Rightarrow> d)) 0 ds"

definition allDigits :: "nat \<Rightarrow> string \<Rightarrow> bool" where
  "allDigits base ds = (ds \<noteq> [] \<and> list_all (isDigitOf base) ds)"

text \<open>The exponent part: empty, or \<^verbatim>\<open>e\<close> or \<^verbatim>\<open>E\<close>, an optional sign and digits.\<close>

definition exponentPart :: "string \<Rightarrow> int option" where
  "exponentPart s =
     (case s of
        [] \<Rightarrow> Some 0
      | c # r \<Rightarrow>
          if c = CHR ''e'' \<or> c = CHR ''E'' then
            (case r of
               [] \<Rightarrow> None
             | d # r' \<Rightarrow>
                 if d = CHR ''+'' then
                   (if allDigits 10 r' then Some (int (digitsValue 10 r')) else None)
                 else if d = CHR ''-'' then
                   (if allDigits 10 r' then Some (- int (digitsValue 10 r')) else None)
                 else if allDigits 10 r then Some (int (digitsValue 10 r))
                 else None)
          else None)"

definition scale :: "rat \<Rightarrow> int \<Rightarrow> rat" where
  "scale m e = (if 0 \<le> e then m * 10 ^ nat e else m / 10 ^ nat (- e))"

definition unsignedDecimal :: "string \<Rightarrow> jsnum" where
  "unsignedDecimal s =
     (if s = ''Infinity'' then PInf
      else
        let ip = takeWhile (isDigitOf 10) s;
            r1 = dropWhile (isDigitOf 10) s;
            dot = (r1 \<noteq> [] \<and> hd r1 = CHR ''.'');
            fp = (if dot then takeWhile (isDigitOf 10) (tl r1) else []);
            r2 = (if dot then dropWhile (isDigitOf 10) (tl r1) else r1)
        in if ip = [] \<and> fp = [] then NaN
           else
             (case exponentPart r2 of
                None \<Rightarrow> NaN
              | Some e \<Rightarrow>
                  Fin (scale (of_nat (digitsValue 10 (ip @ fp))) (e - int (length fp)))))"

definition nonDecimal :: "string \<Rightarrow> jsnum option" where
  "nonDecimal s =
     (case s of
        z # x # ds \<Rightarrow>
          if z \<noteq> CHR ''0'' then None
          else if x = CHR ''x'' \<or> x = CHR ''X'' then
            Some (if allDigits 16 ds then Fin (of_nat (digitsValue 16 ds)) else NaN)
          else if x = CHR ''o'' \<or> x = CHR ''O'' then
            Some (if allDigits 8 ds then Fin (of_nat (digitsValue 8 ds)) else NaN)
          else if x = CHR ''b'' \<or> x = CHR ''B'' then
            Some (if allDigits 2 ds then Fin (of_nat (digitsValue 2 ds)) else NaN)
          else None
      | _ \<Rightarrow> None)"

definition Number :: "string \<Rightarrow> jsnum" where
  "Number token =
     (let s = trim token in
      if s = [] then Fin 0
      else
        (case nonDecimal s of
           Some v \<Rightarrow> v
         | None \<Rightarrow>
             if hd s = CHR ''+'' then unsignedDecimal (tl s)
             else if hd s = CHR ''-'' then jsneg (unsignedDecimal (tl s))
             else unsignedDecimal s))"

subsection \<open>The collaborators\<close>

text \<open>
  A cell of the sheet, as the evaluator reads it through \<^verbatim>\<open>getFormula()\<close>,
  \<^verbatim>\<open>getError()\<close> and \<^verbatim>\<open>getValue()\<close>.
\<close>

record cell =
  getFormula :: "string list"
  getError :: string
  getValue :: jsnum

text \<open>
  The cell resolver: \<^verbatim>\<open>Cell.isValidCellLabel\<close> and \<^verbatim>\<open>SheetMemory.getCellByLabel\<close>.
  Both live in other modules; the evaluator only calls them, so they are parameters.
\<close>

record resolver =
  isValidCellLabel :: "string \<Rightarrow> bool"
  getCellByLabel :: "string \<Rightarrow> cell"

text \<open>
  The table \<^verbatim>\<open>ErrorMessages\<close> of GlobalDefinitions, of which the evaluator uses six
  entries. The strings themselves are a parameter.
\<close>

record error_messages =
  emptyFormula :: string
  missingParentheses :: string
  invalidFormula :: string
  divideByZero :: string
  invalidOperator :: string
  invalidCell :: string

subsection \<open>The evaluator's state and its completions\<close>

text \<open>The fields \<^verbatim>\<open>_errorMessage\<close> and \<^verbatim>\<open>_result\<close>.\<close>

record evaluator =
  errorMessage :: string
  result :: jsnum

text \<open>The field initialisers of the class (lines 10 and 11).\<close>

definition newEvaluator :: evaluator where
  "newEvaluator = \<lparr>errorMessage = [], result = Fin 0\<rparr>"

text \<open>The four \<^verbatim>\<open>throw new Error(...)\<close> of the class, by their message.\<close>

datatype thrown =
    InvalidCellReference  \<comment> \<open>\<^verbatim>\<open>"Invalid cell reference"\<close>\<close>
  | InvalidFormula        \<comment> \<open>\<^verbatim>\<open>"Invalid formula"\<close>\<close>
  | DivisionByZero        \<comment> \<open>\<^verbatim>\<open>"Division by zero"\<close>\<close>
  | InvalidOperator       \<comment> \<open>\<^verbatim>\<open>"Invalid operator"\<close>\<close>

text \<open>
  How a piece of \<^verbatim>\<open>evaluateExpression\<close> ends: it falls through to the next statement
  with its value, it executes \<^verbatim>\<open>return r\<close>, or it throws.
\<close>

datatype 'a completion = Normal 'a | Return jsnum | Throw thrown

subsection \<open>Token classification\<close>

definition isNumber :: "string \<Rightarrow> bool" where
  "isNumber token = (Number token \<noteq> NaN)"

definition isCellReference :: "resolver \<Rightarrow> string \<Rightarrow> bool" where
  "isCellReference mem token = isValidCellLabel mem token"

definition isOperator :: "string \<Rightarrow> bool" where
  "isOperator token = (token \<in> set [''+'', ''-'', ''*'', ''/''])"

definition getOperatorPrecedence :: "string \<Rightarrow> nat" where
  "getOperatorPrecedence operator =
     (if operator = ''+'' \<or> operator = ''-'' then 1
      else if operator = ''*'' \<or> operator = ''/'' then 2
      else 0)"

subsection \<open>\<^verbatim>\<open>getCellValue\<close>\<close>

text \<open>A non-empty string is truthy.\<close>

definition getCellValue :: "error_messages \<Rightarrow> resolver \<Rightarrow> string \<Rightarrow> jsnum \<times> string" where
  "getCellValue msgs mem token =
     (let cell = getCellByLabel mem token;
          formula = getFormula cell;
          error = getError cell
      in if error \<noteq> [] \<and> error \<noteq> emptyFormula msgs then (Fin 0, error)
         else if length formula = 0 then (Fin 0, invalidCell msgs)
         else (getValue cell, []))"

subsection \<open>\<^verbatim>\<open>applyOperator\<close>\<close>

text \<open>
  The two pops are unchecked. \<^verbatim>\<open>operand2 === 0\<close> is false for \<^verbatim>\<open>undefined\<close>. On
  success the state is unchanged and the new value stack is returned.
\<close>

definition applyOperator ::
  "error_messages \<Rightarrow> string \<Rightarrow> jsnum list \<Rightarrow> evaluator \<Rightarrow> jsnum list completion \<times> evaluator" where
  "applyOperator msgs operator values s =
     (let (operand2, values1) = pop values;
          (operand1, values2) = pop values1
      in if operator = ''+'' then
           (Normal (jsadd (toNumber operand1) (toNumber operand2) # values2), s)
         else if operator = ''-'' then
           (Normal (jssub (toNumber operand1) (toNumber operand2) # values2), s)
         else if operator = ''*'' then
           (Normal (jsmul (toNumber operand1) (toNumber operand2) # values2), s)
         else if operator = ''/'' then
           (if operand2 = Some (Fin 0) then
              (Throw DivisionByZero, s\<lparr>result := PInf, errorMessage := divideByZero msgs\<rparr>)
            else (Normal (jsdiv (toNumber operand1) (toNumber operand2) # values2), s))
         else (Throw InvalidOperator, s\<lparr>errorMessage := invalidOperator msgs\<rparr>))"

subsection \<open>The loops of \<^verbatim>\<open>evaluateExpression\<close>\<close>

text \<open>
  Every loop works on the pair of stacks \<open>(values, operators)\<close>.
  The loop of the \<^verbatim>\<open>")"\<close> branch (lines 75 to 80): apply the operators above the
  nearest \<^verbatim>\<open>"("\<close>.
\<close>

fun closeParenLoop ::
  "error_messages \<Rightarrow> string list \<Rightarrow> jsnum list \<Rightarrow> evaluator
     \<Rightarrow> (jsnum list \<times> string list) completion \<times> evaluator" where
  "closeParenLoop msgs [] values s = (Normal (values, []), s)"
| "closeParenLoop msgs (operator # operators) values s =
     (if operator \<noteq> ''('' then
        (case applyOperator msgs operator values s of
           (Normal values', s') \<Rightarrow> closeParenLoop msgs operators values' s'
         | (Return r, s') \<Rightarrow> (Return r, s')
         | (Throw e, s') \<Rightarrow> (Throw e, s'))
      else (Normal (values, operator # operators), s))"

text \<open>
  The loop of the operator branch (lines 87 to 93): apply the pending operators whose
  precedence is at least the token's.
\<close>

fun precedenceLoop ::
  "error_messages \<Rightarrow> string \<Rightarrow> string list \<Rightarrow> jsnum list \<Rightarrow> evaluator
     \<Rightarrow> (jsnum list \<times> string list) completion \<times> evaluator" where
  "precedenceLoop msgs token [] values s = (Normal (values, []), s)"
| "precedenceLoop msgs token (operator # operators) values s =
     (if getOperatorPrecedence token \<le> getOperatorPrecedence operator then
        (case applyOperator msgs operator values s of
           (Normal values', s') \<Rightarrow> precedenceLoop msgs token operators values' s'
         | (Return r, s') \<Rightarrow> (Return r, s')
         | (Throw e, s') \<Rightarrow> (Throw e, s'))
      else (Normal (values, operator # operators), s))"

text \<open>The last loop (lines 115 to 117): apply every remaining operator.\<close>

fun remainingLoop ::
  "error_messages \<Rightarrow> string list \<Rightarrow> jsnum list \<Rightarrow> evaluator
     \<Rightarrow> jsnum list completion \<times> evaluator" where
  "remainingLoop msgs [] values s = (Normal values, s)"
| "remainingLoop msgs (operator # operators) values s =
     (case applyOperator msgs operator values s of
        (Normal values', s') \<Rightarrow> remainingLoop msgs operators values' s'
      | (Return r, s') \<Rightarrow> (Return r, s')
      | (Throw e, s') \<Rightarrow> (Throw e, s'))"

text \<open>
  The body of the \<^verbatim>\<open>for\<close> loop (lines 56 to 95) at \<^verbatim>\<open>token = tokens[i]\<close>, where
  \<open>rest\<close> is the list of the tokens after index \<open>i\<close>: \<^verbatim>\<open>i < tokens.length - 1\<close> is
  \<open>rest \<noteq> []\<close> and \<^verbatim>\<open>tokens[i + 1]\<close> is \<open>hd rest\<close>. A token that no branch takes changes
  nothing.
\<close>

definition loopBody ::
  "error_messages \<Rightarrow> resolver \<Rightarrow> string \<Rightarrow> string list \<Rightarrow> jsnum list \<Rightarrow> string list
     \<Rightarrow> evaluator \<Rightarrow> (jsnum list \<times> string list) completion \<times> evaluator" where
  "loopBody msgs mem token rest values operators s =
     (if isNumber token then
        (if rest \<noteq> [] \<and> hd rest = ''('' then
           (Return (Number token), s\<lparr>errorMessage := invalidFormula msgs\<rparr>)
         else (Normal (Number token # values, operators), s))
      else if isCellReference mem token then
        (let (v, error) = getCellValue msgs mem token
         in if error \<noteq> [] then (Throw InvalidCellReference, s\<lparr>errorMessage := error\<rparr>)
            else (Normal (v # values, operators), s))
      else if token = ''('' then (Normal (values, token # operators), s)
      else if token = '')'' then
        (case closeParenLoop msgs operators values s of
           (Normal (values', operators'), s') \<Rightarrow> (Normal (values', snd (pop operators')), s')
         | (Return r, s') \<Rightarrow> (Return r, s')
         | (Throw e, s') \<Rightarrow> (Throw e, s'))
      else if isOperator token then
        (if rest \<noteq> [] \<and> isOperator (hd rest) then
           (Return (orZero (peek values)), s\<lparr>errorMessage := invalidFormula msgs\<rparr>)
         else
           (case precedenceLoop msgs token operators values s of
              (Normal (values', operators'), s') \<Rightarrow> (Normal (values', token # operators'), s')
            | (Return r, s') \<Rightarrow> (Return r, s')
            | (Throw e, s') \<Rightarrow> (Throw e, s')))
      else (Normal (values, operators), s))"

text \<open>The \<^verbatim>\<open>for\<close> loop over the tokens that are still to be scanned.\<close>

fun forLoop ::
  "error_messages \<Rightarrow> resolver \<Rightarrow> string list \<Rightarrow> jsnum list \<Rightarrow> string list \<Rightarrow> evaluator
     \<Rightarrow> (jsnum list \<times> string list) completion \<times> evaluator" where
  "forLoop msgs mem [] values operators s = (Normal (values, operators), s)"
| "forLoop msgs mem (token # rest) values operators s =
     (case loopBody msgs mem token rest values operators s of
        (Normal (values', operators'), s') \<Rightarrow> forLoop msgs mem rest values' operators' s'
      | (Return r, s') \<Rightarrow> (Return r, s')
      | (Throw e, s') \<Rightarrow> (Throw e, s'))"

subsection \<open>\<^verbatim>\<open>evaluateExpression\<close> and \<^verbatim>\<open>evaluate\<close>\<close>

text \<open>
  \<^verbatim>\<open>evaluateExpression\<close> returns a number (\<open>Inr\<close>) or throws (\<open>Inl\<close>). On an empty
  token list \<^verbatim>\<open>lastToken\<close> is \<^verbatim>\<open>undefined\<close>, which is no operator.
\<close>

definition evaluateExpression ::
  "error_messages \<Rightarrow> resolver \<Rightarrow> string list \<Rightarrow> evaluator \<Rightarrow> (thrown + jsnum) \<times> evaluator" where
  "evaluateExpression msgs mem tokens s =
     (case forLoop msgs mem tokens [] [] s of
        (Return r, s1) \<Rightarrow> (Inr r, s1)
      | (Throw e, s1) \<Rightarrow> (Inl e, s1)
      | (Normal (values, operators), s1) \<Rightarrow>
          if tokens \<noteq> [] \<and> isOperator (last tokens) then
            (Inr (orZero (peek values)), s1\<lparr>errorMessage := invalidFormula msgs\<rparr>)
          else if operators \<noteq> [] \<and> (\<not> isOperator (hd operators) \<or> length values < 2) then
            (Inl InvalidFormula, s1\<lparr>errorMessage := invalidFormula msgs\<rparr>)
          else
            (case remainingLoop msgs operators values s1 of
               (Normal values', s2) \<Rightarrow> (Inr (orZero (fst (pop values'))), s2)
             | (Return r, s2) \<Rightarrow> (Inr r, s2)
             | (Throw e, s2) \<Rightarrow> (Inl e, s2)))"

text \<open>
  \<^verbatim>\<open>evaluate\<close> (lines 17 to 48). Only \<^verbatim>\<open>_errorMessage\<close> is assigned at the start. The
  \<^verbatim>\<open>catch\<close> block keeps an error message that is already set (a non-empty string).
\<close>

definition evaluate :: "error_messages \<Rightarrow> resolver \<Rightarrow> string list \<Rightarrow> evaluator \<Rightarrow> evaluator" where
  "evaluate msgs mem formula s =
     (let s0 = s\<lparr>errorMessage := []\<rparr>
      in if length formula = 0 then s0\<lparr>errorMessage := emptyFormula msgs\<rparr>
         else if length formula = 2 \<and> formula ! 0 = ''('' \<and> formula ! 1 = '')'' then
           s0\<lparr>errorMessage := missingParentheses msgs\<rparr>
         else
           let lastCharacter = last formula;
               s1 = (if isOperator lastCharacter \<and> lastCharacter \<noteq> '')''
                     then s0\<lparr>errorMessage := invalidFormula msgs\<rparr> else s0)
           in (case evaluateExpression msgs mem formula s1 of
                 (Inr r, s2) \<Rightarrow> s2\<lparr>result := r\<rparr>
               | (Inl e, s2) \<Rightarrow>
                   if errorMessage s2 = [] then s2\<lparr>errorMessage := invalidFormula msgs\<rparr>
                   else s2))"

subsection \<open>The first iterations of the scan\<close>

text \<open>
  \<open>scanPrefix msgs mem pre rest\<close> runs the body of the \<^verbatim>\<open>for\<close> loop on the tokens \<open>pre\<close>
  of a formula \<open>pre @ rest\<close>. It ends \<open>Normal\<close> exactly when the scan of \<open>pre @ rest\<close>
  reaches the first token of \<open>rest\<close>, and then gives the stacks at that moment.
\<close>

fun scanPrefix ::
  "error_messages \<Rightarrow> resolver \<Rightarrow> string list \<Rightarrow> string list \<Rightarrow> jsnum list \<Rightarrow> string list
     \<Rightarrow> evaluator \<Rightarrow> (jsnum list \<times> string list) completion \<times> evaluator" where
  "scanPrefix msgs mem [] rest values operators s = (Normal (values, operators), s)"
| "scanPrefix msgs mem (token # pre) rest values operators s =
     (case loopBody msgs mem token (pre @ rest) values operators s of
        (Normal (values', operators'), s') \<Rightarrow> scanPrefix msgs mem pre rest values' operators' s'
      | (Return r, s') \<Rightarrow> (Return r, s')
      | (Throw e, s') \<Rightarrow> (Throw e, s'))"

subsection \<open>The standard reading of a formula\<close>

text \<open>
  The reference that \<^verbatim>\<open>evaluate\<close> is compared with, written from the specification's
  words (standard precedence, \<^verbatim>\<open>*\<close> and \<^verbatim>\<open>/\<close> before \<^verbatim>\<open>+\<close> and \<^verbatim>\<open>-\<close>, left-associative,
  parentheses override), not from the code. An expression is a number token, a
  parenthesised expression or a binary operation; \<open>tokensOf\<close> writes it as a formula.
\<close>

datatype expr = Atom string | Paren expr | Binary expr string expr

fun tokensOf :: "expr \<Rightarrow> string list" where
  "tokensOf (Atom token) = [token]"
| "tokensOf (Paren e) = ''('' # tokensOf e @ ['')'']"
| "tokensOf (Binary l operator r) = tokensOf l @ operator # tokensOf r"





subsection \<open>Concrete collaborators for the examples\<close>

text \<open>
  Modelled from the spec: the table \<^verbatim>\<open>ErrorMessages\<close> of GlobalDefinitions is not among
  the sources. The specification lists its six entries as a catalogue of identifiers;
  each entry is given its identifier as its string.
\<close>

definition specMessages :: error_messages where
  "specMessages =
     \<lparr>emptyFormula = ''emptyFormula'', missingParentheses = ''missingParentheses'',
      invalidFormula = ''invalidFormula'', divideByZero = ''divideByZero'',
      invalidOperator = ''invalidOperator'', invalidCell = ''invalidCell''\<rparr>"

text \<open>
  A small sheet for the concrete instances: \<^verbatim>\<open>A1\<close> holds the formula \<^verbatim>\<open>1\<close> and a stored
  error, \<^verbatim>\<open>A2\<close> holds the formula \<^verbatim>\<open>5\<close> with the value 5, and \<^verbatim>\<open>A3\<close> is empty. No other
  string is a cell label.
\<close>

definition sampleCell :: "string \<Rightarrow> cell" where
  "sampleCell label =
     (if label = ''A1'' then \<lparr>getFormula = [''1''], getError = ''#CIRC'', getValue = Fin 1\<rparr>
      else if label = ''A2'' then \<lparr>getFormula = [''5''], getError = [], getValue = Fin 5\<rparr>
      else \<lparr>getFormula = [], getError = ''emptyFormula'', getValue = Fin 0\<rparr>)"

definition sampleResolver :: resolver where
  "sampleResolver =
     \<lparr>isValidCellLabel = (\<lambda>token. token \<in> set [''A1'', ''A2'', ''A3'']),
      getCellByLabel = sampleCell\<rparr>"

text \<open>An evaluator that an earlier call has left with an error and the result 7.\<close>

definition sampleEvaluator :: evaluator where
  "sampleEvaluator = \<lparr>errorMessage = ''invalidFormula'', result = Fin 7\<rparr>"

section \<open>Properties\<close>

subsection \<open>What each piece does to the evaluator's fields\<close>

text \<open>
  A piece that ends \<open>Normal\<close> leaves both fields as they were. Only the division by zero
  assigns \<^verbatim>\<open>_result\<close>. No piece reads the fields, so how a piece ends does not depend on
  them.
\<close>

lemma applyOperator_fst:
  "fst (applyOperator msgs operator values s) = fst (applyOperator msgs operator values t)"
  by (auto simp: applyOperator_def Let_def split: prod.splits if_splits)

lemma applyOperator_DivisionByZero_iff:
  "fst (applyOperator msgs operator values s) = Throw DivisionByZero
     \<longleftrightarrow> operator = ''/'' \<and> peek values = Some (Fin 0)"
  by (cases "values") (auto simp: applyOperator_def Let_def split: prod.splits if_splits)

lemma applyOperator_effect:
  "applyOperator msgs operator values s = (c, s') \<Longrightarrow>
     (case c of
        Normal x \<Rightarrow> s' = s
      | Return r \<Rightarrow> False
      | Throw e \<Rightarrow>
          if e = DivisionByZero then s' = s\<lparr>result := PInf, errorMessage := divideByZero msgs\<rparr>
          else result s' = result s)"
  by (auto simp: applyOperator_def Let_def split: prod.splits if_splits)

lemma closeParenLoop_effect:
  "closeParenLoop msgs operators values s = (c, s') \<Longrightarrow>
     (case c of
        Normal x \<Rightarrow> s' = s
      | Return r \<Rightarrow> False
      | Throw e \<Rightarrow>
          if e = DivisionByZero then s' = s\<lparr>result := PInf, errorMessage := divideByZero msgs\<rparr>
          else result s' = result s)"
proof (induction operators arbitrary: "values" s)
  case Nil
  then show ?case by auto
next
  case (Cons operator operators)
  show ?case
  proof (cases "operator = ''(''")
    case True
    with Cons.prems show ?thesis by auto
  next
    case False
    obtain c1 s1 where a: "applyOperator msgs operator values s = (c1, s1)"
      by (cases "applyOperator msgs operator values s")
    from applyOperator_effect [OF a] Cons.prems False a Cons.IH show ?thesis
      by (cases c1) (auto split: if_splits)
  qed
qed

lemma closeParenLoop_fst:
  "fst (closeParenLoop msgs operators values s) = fst (closeParenLoop msgs operators values t)"
proof (induction operators arbitrary: "values" s t)
  case Nil
  show ?case by simp
next
  case (Cons operator operators)
  obtain c1 s1 where a: "applyOperator msgs operator values s = (c1, s1)"
    by (cases "applyOperator msgs operator values s")
  obtain c2 t1 where b: "applyOperator msgs operator values t = (c2, t1)"
    by (cases "applyOperator msgs operator values t")
  from applyOperator_fst [of msgs operator "values" s t] a b have "c2 = c1" by simp
  with a b Cons.IH show ?case
    by (cases c1) auto
qed


lemma precedenceLoop_effect:
  "precedenceLoop msgs token operators values s = (c, s') \<Longrightarrow>
     (case c of
        Normal x \<Rightarrow> s' = s
      | Return r \<Rightarrow> False
      | Throw e \<Rightarrow>
          if e = DivisionByZero then s' = s\<lparr>result := PInf, errorMessage := divideByZero msgs\<rparr>
          else result s' = result s)"
proof (induction operators arbitrary: "values" s)
  case Nil
  then show ?case by auto
next
  case (Cons operator operators)
  show ?case
  proof (cases "getOperatorPrecedence token \<le> getOperatorPrecedence operator")
    case False
    with Cons.prems show ?thesis by auto
  next
    case True
    obtain c1 s1 where a: "applyOperator msgs operator values s = (c1, s1)"
      by (cases "applyOperator msgs operator values s")
    from applyOperator_effect [OF a] Cons.prems True a Cons.IH show ?thesis
      by (cases c1) (auto split: if_splits)
  qed
qed

lemma precedenceLoop_fst:
  "fst (precedenceLoop msgs token operators values s)
     = fst (precedenceLoop msgs token operators values t)"
proof (induction operators arbitrary: "values" s t)
  case Nil
  show ?case by simp
next
  case (Cons operator operators)
  obtain c1 s1 where a: "applyOperator msgs operator values s = (c1, s1)"
    by (cases "applyOperator msgs operator values s")
  obtain c2 t1 where b: "applyOperator msgs operator values t = (c2, t1)"
    by (cases "applyOperator msgs operator values t")
  from applyOperator_fst [of msgs operator "values" s t] a b have "c2 = c1" by simp
  with a b Cons.IH show ?case
    by (cases c1) auto
qed

lemma remainingLoop_effect:
  "remainingLoop msgs operators values s = (c, s') \<Longrightarrow>
     (case c of
        Normal x \<Rightarrow> s' = s
      | Return r \<Rightarrow> False
      | Throw e \<Rightarrow>
          if e = DivisionByZero then s' = s\<lparr>result := PInf, errorMessage := divideByZero msgs\<rparr>
          else result s' = result s)"
proof (induction operators arbitrary: "values" s)
  case Nil
  then show ?case by auto
next
  case (Cons operator operators)
  obtain c1 s1 where a: "applyOperator msgs operator values s = (c1, s1)"
    by (cases "applyOperator msgs operator values s")
  from applyOperator_effect [OF a] Cons.prems a Cons.IH show ?case
    by (cases c1) (auto split: if_splits)
qed

lemma remainingLoop_fst:
  "fst (remainingLoop msgs operators values s) = fst (remainingLoop msgs operators values t)"
proof (induction operators arbitrary: "values" s t)
  case Nil
  show ?case by simp
next
  case (Cons operator operators)
  obtain c1 s1 where a: "applyOperator msgs operator values s = (c1, s1)"
    by (cases "applyOperator msgs operator values s")
  obtain c2 t1 where b: "applyOperator msgs operator values t = (c2, t1)"
    by (cases "applyOperator msgs operator values t")
  from applyOperator_fst [of msgs operator "values" s t] a b have "c2 = c1" by simp
  with a b Cons.IH show ?case
    by (cases c1) auto
qed

lemma loopBody_effect:
  "loopBody msgs mem token rest values operators s = (c, s') \<Longrightarrow>
     (case c of
        Normal x \<Rightarrow> s' = s
      | Return r \<Rightarrow> s' = s\<lparr>errorMessage := invalidFormula msgs\<rparr>
      | Throw e \<Rightarrow>
          if e = DivisionByZero then s' = s\<lparr>result := PInf, errorMessage := divideByZero msgs\<rparr>
          else result s' = result s)"
proof -
  assume a: "loopBody msgs mem token rest values operators s = (c, s')"
  obtain c1 s1 where cl: "closeParenLoop msgs operators values s = (c1, s1)"
    by (cases "closeParenLoop msgs operators values s")
  obtain c2 s2 where pl: "precedenceLoop msgs token operators values s = (c2, s2)"
    by (cases "precedenceLoop msgs token operators values s")
  from a closeParenLoop_effect [OF cl] precedenceLoop_effect [OF pl] cl pl show ?thesis
    by (cases c1; cases c2)
       (auto simp: loopBody_def Let_def split: if_splits prod.splits)
qed

lemma loopBody_fst:
  "fst (loopBody msgs mem token rest values operators s)
     = fst (loopBody msgs mem token rest values operators t)"
proof -
  obtain c1 s1 where a: "closeParenLoop msgs operators values s = (c1, s1)"
    by (cases "closeParenLoop msgs operators values s")
  obtain c1' t1 where b: "closeParenLoop msgs operators values t = (c1', t1)"
    by (cases "closeParenLoop msgs operators values t")
  obtain c2 s2 where c: "precedenceLoop msgs token operators values s = (c2, s2)"
    by (cases "precedenceLoop msgs token operators values s")
  obtain c2' t2 where d: "precedenceLoop msgs token operators values t = (c2', t2)"
    by (cases "precedenceLoop msgs token operators values t")
  from closeParenLoop_fst [of msgs operators "values" s t] a b have e: "c1' = c1" by simp
  from precedenceLoop_fst [of msgs token operators "values" s t] c d have f: "c2' = c2" by simp
  from a b c d e f show ?thesis
    by (cases c1; cases c2) (auto simp: loopBody_def Let_def split: prod.splits)
qed

lemma forLoop_effect:
  "forLoop msgs mem tokens values operators s = (c, s') \<Longrightarrow>
     (case c of
        Normal x \<Rightarrow> s' = s
      | Return r \<Rightarrow> s' = s\<lparr>errorMessage := invalidFormula msgs\<rparr>
      | Throw e \<Rightarrow>
          if e = DivisionByZero then s' = s\<lparr>result := PInf, errorMessage := divideByZero msgs\<rparr>
          else result s' = result s)"
proof (induction tokens arbitrary: "values" operators s)
  case Nil
  then show ?case by auto
next
  case (Cons token rest)
  obtain c1 s1 where a: "loopBody msgs mem token rest values operators s = (c1, s1)"
    by (cases "loopBody msgs mem token rest values operators s")
  note e1 = loopBody_effect [OF a]
  show ?case
  proof (cases c1)
    case (Normal x)
    obtain vs ops where x: "x = (vs, ops)" by (cases x)
    from Cons.prems a Normal x have "forLoop msgs mem rest vs ops s1 = (c, s')" by simp
    from Cons.IH [OF this] e1 Normal show ?thesis by (cases c) auto
  next
    case (Return r)
    with Cons.prems a e1 show ?thesis by auto
  next
    case (Throw e)
    with Cons.prems a e1 show ?thesis by auto
  qed
qed

lemma forLoop_fst:
  "fst (forLoop msgs mem tokens values operators s)
     = fst (forLoop msgs mem tokens values operators t)"
proof (induction tokens arbitrary: "values" operators s t)
  case Nil
  show ?case by simp
next
  case (Cons token rest)
  obtain c1 s1 where a: "loopBody msgs mem token rest values operators s = (c1, s1)"
    by (cases "loopBody msgs mem token rest values operators s")
  obtain c2 t1 where b: "loopBody msgs mem token rest values operators t = (c2, t1)"
    by (cases "loopBody msgs mem token rest values operators t")
  from loopBody_fst [of msgs mem token rest "values" operators s t] a b have "c2 = c1" by simp
  with a b Cons.IH show ?case
    by (cases c1) auto
qed

lemma scanPrefix_effect:
  "scanPrefix msgs mem pre rest values operators s = (Normal x, s') \<Longrightarrow> s' = s"
proof (induction pre arbitrary: "values" operators s)
  case Nil
  then show ?case by auto
next
  case (Cons token pre)
  obtain c1 s1 where a: "loopBody msgs mem token (pre @ rest) values operators s = (c1, s1)"
    by (cases "loopBody msgs mem token (pre @ rest) values operators s")
  note e1 = loopBody_effect [OF a]
  show ?case
  proof (cases c1)
    case (Normal y)
    obtain vs ops where y: "y = (vs, ops)" by (cases y)
    from Cons.prems a Normal y have "scanPrefix msgs mem pre rest vs ops s1 = (Normal x, s')"
      by simp
    from Cons.IH [OF this] e1 Normal show ?thesis by simp
  next
    case (Return r)
    with Cons.prems a show ?thesis by auto
  next
    case (Throw e)
    with Cons.prems a show ?thesis by auto
  qed
qed

lemma scanPrefix_fst:
  "fst (scanPrefix msgs mem pre rest values operators s)
     = fst (scanPrefix msgs mem pre rest values operators t)"
proof (induction pre arbitrary: "values" operators s t)
  case Nil
  show ?case by simp
next
  case (Cons token pre)
  obtain c1 s1 where a: "loopBody msgs mem token (pre @ rest) values operators s = (c1, s1)"
    by (cases "loopBody msgs mem token (pre @ rest) values operators s")
  obtain c2 t1 where b: "loopBody msgs mem token (pre @ rest) values operators t = (c2, t1)"
    by (cases "loopBody msgs mem token (pre @ rest) values operators t")
  from loopBody_fst [of msgs mem token "pre @ rest" "values" operators s t] a b
  have "c2 = c1" by simp
  with a b Cons.IH show ?case
    by (cases c1) auto
qed

lemma forLoop_append:
  "forLoop msgs mem (pre @ rest) values operators s =
     (case scanPrefix msgs mem pre rest values operators s of
        (Normal (values', operators'), s') \<Rightarrow> forLoop msgs mem rest values' operators' s'
      | (Return r, s') \<Rightarrow> (Return r, s')
      | (Throw e, s') \<Rightarrow> (Throw e, s'))"
  by (induction pre arbitrary: "values" operators s)
     (auto split: prod.splits completion.splits)

lemma evaluateExpression_effect:
  "evaluateExpression msgs mem tokens s = (c, s') \<Longrightarrow>
     (case c of
        Inr r \<Rightarrow> result s' = result s
      | Inl e \<Rightarrow>
          if e = DivisionByZero then s' = s\<lparr>result := PInf, errorMessage := divideByZero msgs\<rparr>
          else result s' = result s)"
proof -
  assume a: "evaluateExpression msgs mem tokens s = (c, s')"
  obtain c1 s1 where fl: "forLoop msgs mem tokens [] [] s = (c1, s1)"
    by (cases "forLoop msgs mem tokens [] [] s")
  note e1 = forLoop_effect [OF fl]
  show ?thesis
  proof (cases c1)
    case (Normal x)
    obtain vs ops where x: "x = (vs, ops)" by (cases x)
    obtain c2 s2 where rl: "remainingLoop msgs ops vs s = (c2, s2)"
      by (cases "remainingLoop msgs ops vs s")
    from a fl e1 Normal x rl remainingLoop_effect [OF rl] show ?thesis
      by (cases c2) (auto simp: evaluateExpression_def split: if_splits)
  next
    case (Return r)
    with a fl e1 show ?thesis by (auto simp: evaluateExpression_def)
  next
    case (Throw e)
    with a fl e1 show ?thesis by (auto simp: evaluateExpression_def split: if_splits)
  qed
qed

lemma evaluateExpression_fst:
  "fst (evaluateExpression msgs mem tokens s) = fst (evaluateExpression msgs mem tokens t)"
proof -
  obtain c1 s1 where a: "forLoop msgs mem tokens [] [] s = (c1, s1)"
    by (cases "forLoop msgs mem tokens [] [] s")
  obtain c2 t1 where b: "forLoop msgs mem tokens [] [] t = (c2, t1)"
    by (cases "forLoop msgs mem tokens [] [] t")
  from forLoop_fst [of msgs mem tokens "[]" "[]" s t] a b have c: "c2 = c1" by simp
  show ?thesis
  proof (cases c1)
    case (Normal x)
    obtain vs ops where x: "x = (vs, ops)" by (cases x)
    from forLoop_effect [OF a] forLoop_effect [OF b] c Normal
    have st: "s1 = s" "t1 = t" by auto
    obtain c3 s3 where d: "remainingLoop msgs ops vs s = (c3, s3)"
      by (cases "remainingLoop msgs ops vs s")
    obtain c4 t3 where e: "remainingLoop msgs ops vs t = (c4, t3)"
      by (cases "remainingLoop msgs ops vs t")
    from remainingLoop_fst [of msgs ops vs s t] d e have "c4 = c3" by simp
    with a b c Normal x st d e show ?thesis
      by (cases c3) (auto simp: evaluateExpression_def)
  next
    case (Return r)
    with a b c show ?thesis by (auto simp: evaluateExpression_def)
  next
    case (Throw e)
    with a b c show ?thesis by (auto simp: evaluateExpression_def)
  qed
qed

subsection \<open>Evaluation of concrete tokens\<close>

lemma Number_examples:
  "Number ''0'' = Fin 0" "Number ''1'' = Fin 1" "Number ''2'' = Fin 2" "Number ''3'' = Fin 3"
  "Number ''4'' = Fin 4" "Number ''7'' = Fin 7" "Number ''8'' = Fin 8"
  "Number ''+'' = NaN" "Number ''-'' = NaN" "Number ''*'' = NaN" "Number ''/'' = NaN"
  "Number ''('' = NaN" "Number '')'' = NaN" "Number ''foo'' = NaN" "Number ''A1'' = NaN"
  by code_simp+

lemma isOperator_not_isNumber: "isOperator token \<Longrightarrow> \<not> isNumber token"
  by (auto simp: isOperator_def isNumber_def Number_examples)

lemmas eval_simps =
  evaluate_def evaluateExpression_def loopBody_def isCellReference_def isNumber_def
  Number_examples isOperator_def getOperatorPrecedence_def applyOperator_def jssub_def
  getCellValue_def

lemmas sample_simps =
  specMessages_def sampleResolver_def sampleCell_def sampleEvaluator_def newEvaluator_def


lemma lone_parentheses_iff:
  "(length formula = 2 \<and> formula ! 0 = ''('' \<and> formula ! 1 = '')'') \<longleftrightarrow> formula = [''('', '')'']"
proof (cases formula)
  case Nil
  then show ?thesis by simp
next
  case (Cons a rest)
  then show ?thesis by (cases rest) auto
qed

lemma evaluate_general:
  assumes "formula \<noteq> []" and "formula \<noteq> [''('', '')'']"
  obtains s1 where "result s1 = result s"
    and "evaluate msgs mem formula s =
           (case evaluateExpression msgs mem formula s1 of
              (Inr r, s2) \<Rightarrow> s2\<lparr>result := r\<rparr>
            | (Inl e, s2) \<Rightarrow>
                if errorMessage s2 = [] then s2\<lparr>errorMessage := invalidFormula msgs\<rparr> else s2)"
proof -
  define s1 where "s1 =
    (if isOperator (last formula) \<and> last formula \<noteq> '')''
     then s\<lparr>errorMessage := [], errorMessage := invalidFormula msgs\<rparr>
     else s\<lparr>errorMessage := []\<rparr>)"
  have r: "result s1 = result s"
    by (simp add: s1_def)
  from assms lone_parentheses_iff [of formula]
  have np: "\<not> (length formula = 2 \<and> formula ! 0 = ''('' \<and> formula ! 1 = '')'')"
    by simp
  have "evaluate msgs mem formula s =
           (case evaluateExpression msgs mem formula s1 of
              (Inr r, s2) \<Rightarrow> s2\<lparr>result := r\<rparr>
            | (Inl e, s2) \<Rightarrow>
                if errorMessage s2 = [] then s2\<lparr>errorMessage := invalidFormula msgs\<rparr> else s2)"
    unfolding evaluate_def Let_def s1_def using assms(1) np
    by (simp only: if_False length_0_conv)
  with r show ?thesis by (rule that)
qed

subsection \<open>Well-formed formulas\<close>











lemma tokensOf_nonempty: "tokensOf e \<noteq> []"
  by (cases e) simp_all

lemma length_tokensOf: "length (tokensOf e) \<noteq> 2"
proof (cases e)
  case (Atom token)
  then show ?thesis by simp
next
  case (Paren e')
  with tokensOf_nonempty [of e'] show ?thesis by (cases "tokensOf e'") simp_all
next
  case (Binary l operator r)
  with tokensOf_nonempty [of l] tokensOf_nonempty [of r] show ?thesis
    by (cases "tokensOf l"; cases "tokensOf r") simp_all
qed

lemma tokensOf_not_parens: "tokensOf e \<noteq> [''('', '')'']"
proof
  assume "tokensOf e = [''('', '')'']"
  then have "length (tokensOf e) = 2" by simp
  with length_tokensOf show False by blast
qed











subsection \<open>The claims\<close>





text \<open>
  The claim that every failure other than a division by zero leaves the stored result
  unchanged fails on \<^verbatim>\<open>3 +\<close>: the error is \<^verbatim>\<open>invalidFormula\<close>, and the stored result 7
  is overwritten with 3, the value that \<^verbatim>\<open>evaluateExpression\<close> returns.
\<close>

theorem evaluate_failure_result_counterexample:
  "errorMessage (evaluate specMessages sampleResolver [''3'', ''+''] sampleEvaluator)
     = invalidFormula specMessages
   \<and> errorMessage (evaluate specMessages sampleResolver [''3'', ''+''] sampleEvaluator) \<noteq> []
   \<and> errorMessage (evaluate specMessages sampleResolver [''3'', ''+''] sampleEvaluator)
     \<noteq> divideByZero specMessages
   \<and> result sampleEvaluator = Fin 7
   \<and> result (evaluate specMessages sampleResolver [''3'', ''+''] sampleEvaluator) = Fin 3"
  by (simp add: eval_simps sample_simps)

text \<open>
  C3, as amended. \<^verbatim>\<open>evaluate\<close> leaves the stored result unchanged when the formula is
  empty, when it is the lone pair of parentheses, and when \<^verbatim>\<open>evaluateExpression\<close> throws
  an exception other than the division by zero. When \<^verbatim>\<open>evaluateExpression\<close> returns a
  value, as it does on the failures it reports by \<^verbatim>\<open>return\<close>, the stored result becomes
  that value.
\<close>

theorem evaluate_failure_result:
  "(formula = [] \<or> formula = [''('', '')'']
      \<or> (\<exists>e. e \<noteq> DivisionByZero \<and> fst (evaluateExpression msgs mem formula s) = Inl e)
    \<longrightarrow> result (evaluate msgs mem formula s) = result s)
   \<and> (formula \<noteq> [] \<and> formula \<noteq> [''('', '')'']
        \<and> fst (evaluateExpression msgs mem formula s) = Inr r
    \<longrightarrow> result (evaluate msgs mem formula s) = r)"
proof (cases "formula = [] \<or> formula = [''('', '')'']")
  case True
  then show ?thesis by (auto simp: evaluate_def)
next
  case False
  then obtain s1 where r: "result s1 = result s" and
    ev: "evaluate msgs mem formula s =
           (case evaluateExpression msgs mem formula s1 of
              (Inr r, s2) \<Rightarrow> s2\<lparr>result := r\<rparr>
            | (Inl e, s2) \<Rightarrow>
                if errorMessage s2 = [] then s2\<lparr>errorMessage := invalidFormula msgs\<rparr> else s2)"
    using evaluate_general [of formula s msgs mem] by blast
  obtain c s2 where run: "evaluateExpression msgs mem formula s1 = (c, s2)"
    by (cases "evaluateExpression msgs mem formula s1")
  from evaluateExpression_fst [of msgs mem formula s1 s] run
  have c: "fst (evaluateExpression msgs mem formula s) = c" by simp
  show ?thesis
  proof (cases c)
    case (Inl e)
    from evaluateExpression_effect [OF run] Inl
    have "e \<noteq> DivisionByZero \<Longrightarrow> result s2 = result s1" by simp
    with ev run Inl r c False show ?thesis by auto
  next
    case (Inr v)
    with ev run c False show ?thesis by auto
  qed
qed

theorem evaluate_failure_result_witness:
  "fst (evaluateExpression specMessages sampleResolver [''+'', ''3''] sampleEvaluator)
     = Inl InvalidFormula
   \<and> errorMessage (evaluate specMessages sampleResolver [''+'', ''3''] sampleEvaluator)
     = ''invalidFormula''
   \<and> result (evaluate specMessages sampleResolver [''+'', ''3''] sampleEvaluator)
     = result sampleEvaluator
   \<and> fst (evaluateExpression specMessages sampleResolver [''3'', ''+''] sampleEvaluator)
     = Inr (Fin 3)
   \<and> result (evaluate specMessages sampleResolver [''3'', ''+''] sampleEvaluator) = Fin 3"
proof -
  have h1: "fst (evaluateExpression specMessages sampleResolver [''+'', ''3''] sampleEvaluator)
              = Inl InvalidFormula"
    by (simp add: eval_simps sample_simps)
  have h2: "fst (evaluateExpression specMessages sampleResolver [''3'', ''+''] sampleEvaluator)
              = Inr (Fin 3)"
    by (simp add: eval_simps sample_simps)
  have e: "errorMessage (evaluate specMessages sampleResolver [''+'', ''3''] sampleEvaluator)
             = ''invalidFormula''"
    by (simp add: eval_simps sample_simps)
  from h1 h2 e
    evaluate_failure_result [of "[''+'', ''3'']" specMessages sampleResolver sampleEvaluator]
    evaluate_failure_result [of "[''3'', ''+'']" specMessages sampleResolver sampleEvaluator
      "Fin 3"]
  show ?thesis by simp
qed

text \<open>
  C4. \<^verbatim>\<open>evaluate\<close> resets \<^verbatim>\<open>_errorMessage\<close> only, although its comment announces the
  reset of both fields: after \<^verbatim>\<open>evaluate(["7"])\<close> on a new evaluator, \<^verbatim>\<open>evaluate([])\<close>
  reports \<^verbatim>\<open>emptyFormula\<close> and the result is still 7.
\<close>

theorem evaluate_keeps_result:
  "evaluate specMessages sampleResolver [''7''] newEvaluator
     = \<lparr>errorMessage = [], result = Fin 7\<rparr>
   \<and> evaluate specMessages sampleResolver []
       (evaluate specMessages sampleResolver [''7''] newEvaluator)
     = \<lparr>errorMessage = ''emptyFormula'', result = Fin 7\<rparr>"
  by (simp add: eval_simps sample_simps)

text \<open>
  The claim that every formula containing a reference to a cell with a stored error
  ends with that error fails on \<^verbatim>\<open>3 ( A1\<close>: the scan ends at \<^verbatim>\<open>3\<close>, which is followed by
  \<^verbatim>\<open>(\<close>, with \<^verbatim>\<open>invalidFormula\<close>, and never reads the cell.
\<close>

theorem cell_error_counterexample:
  "''A1'' \<in> set [''3'', ''('', ''A1'']
   \<and> \<not> isNumber ''A1'' \<and> isCellReference sampleResolver ''A1''
   \<and> getError (getCellByLabel sampleResolver ''A1'') = ''#CIRC''
   \<and> ''#CIRC'' \<noteq> emptyFormula specMessages
   \<and> errorMessage (evaluate specMessages sampleResolver [''3'', ''('', ''A1''] newEvaluator)
     = ''invalidFormula''
   \<and> errorMessage (evaluate specMessages sampleResolver [''3'', ''('', ''A1''] newEvaluator)
     \<noteq> getError (getCellByLabel sampleResolver ''A1'')"
  by (simp add: eval_simps sample_simps)

text \<open>
  C5, as amended. When the scan of a formula reaches a token that is no number and is a
  valid cell label, and the cell of that label has a stored error that is neither empty
  nor the \<^verbatim>\<open>emptyFormula\<close> message, then \<^verbatim>\<open>evaluateExpression\<close> throws there, and
  \<^verbatim>\<open>evaluate\<close> ends with exactly the stored error as its error and with the stored
  result unchanged. The formula is not the lone pair of parentheses, which \<^verbatim>\<open>evaluate\<close>
  answers before any scan.
\<close>

theorem cell_error_propagates:
  assumes reach: "fst (scanPrefix msgs mem pre (token # post) [] [] s) = Normal (values, operators)"
    and cellref: "\<not> isNumber token" "isCellReference mem token"
    and stored: "getError (getCellByLabel mem token) \<noteq> []"
      "getError (getCellByLabel mem token) \<noteq> emptyFormula msgs"
    and np: "pre @ token # post \<noteq> [''('', '')'']"
  shows "fst (evaluateExpression msgs mem (pre @ token # post) s) = Inl InvalidCellReference
       \<and> errorMessage (evaluate msgs mem (pre @ token # post) s)
         = getError (getCellByLabel mem token)
       \<and> result (evaluate msgs mem (pre @ token # post) s) = result s"
proof -
  let ?formula = "pre @ token # post"
  have body: "loopBody msgs mem token post values operators t
                = (Throw InvalidCellReference,
                   t\<lparr>errorMessage := getError (getCellByLabel mem token)\<rparr>)" for t
    using cellref stored by (simp add: loopBody_def getCellValue_def Let_def)
  have run: "evaluateExpression msgs mem ?formula t
               = (Inl InvalidCellReference,
                  t\<lparr>errorMessage := getError (getCellByLabel mem token)\<rparr>)" for t
  proof -
    obtain c t' where sp: "scanPrefix msgs mem pre (token # post) [] [] t = (c, t')"
      by (cases "scanPrefix msgs mem pre (token # post) [] [] t")
    from scanPrefix_fst [of msgs mem pre "token # post" "[]" "[]" t s] sp reach
    have c: "c = Normal (values, operators)" by simp
    from scanPrefix_effect sp c have "t' = t" by blast
    with sp c body show ?thesis
      by (simp add: evaluateExpression_def forLoop_append)
  qed
  have ne: "?formula \<noteq> []" by simp
  from ne np obtain s1 where r: "result s1 = result s" and
    ev: "evaluate msgs mem ?formula s =
           (case evaluateExpression msgs mem ?formula s1 of
              (Inr r, s2) \<Rightarrow> s2\<lparr>result := r\<rparr>
            | (Inl e, s2) \<Rightarrow>
                if errorMessage s2 = [] then s2\<lparr>errorMessage := invalidFormula msgs\<rparr> else s2)"
    using evaluate_general [of ?formula s msgs mem] by blast
  from ev run [of s1] run [of s] r stored show ?thesis by simp
qed

theorem cell_error_propagates_witness:
  "fst (scanPrefix specMessages sampleResolver [''3'', ''+''] [''A1''] [] [] newEvaluator)
     = Normal ([Fin 3], [''+''])
   \<and> \<not> isNumber ''A1'' \<and> isCellReference sampleResolver ''A1''
   \<and> getError (getCellByLabel sampleResolver ''A1'') = ''#CIRC''
   \<and> errorMessage (evaluate specMessages sampleResolver [''3'', ''+'', ''A1''] newEvaluator)
     = ''#CIRC''
   \<and> result (evaluate specMessages sampleResolver [''3'', ''+'', ''A1''] newEvaluator) = Fin 0"
proof -
  have h: "fst (scanPrefix specMessages sampleResolver [''3'', ''+''] [''A1''] [] [] newEvaluator)
             = Normal ([Fin 3], [''+''])"
    "\<not> isNumber ''A1''" "isCellReference sampleResolver ''A1''"
    "getError (getCellByLabel sampleResolver ''A1'') \<noteq> []"
    "getError (getCellByLabel sampleResolver ''A1'') \<noteq> emptyFormula specMessages"
    "[''3'', ''+''] @ ''A1'' # [] \<noteq> [''('', '')'']"
    by (simp_all add: eval_simps sample_simps)
  from cell_error_propagates [OF h] h(1-3) show ?thesis
    by (simp add: sample_simps)
qed

text \<open>
  The claim that every formula with two adjacent operators ends with
  \<^verbatim>\<open>invalidFormula\<close> fails on \<^verbatim>\<open>A1 + * 4\<close>: the reference to the cell \<^verbatim>\<open>A1\<close>, which has
  a stored error, ends the evaluation before the scan reaches \<^verbatim>\<open>+\<close>.
\<close>

theorem consecutive_operators_counterexample:
  "isOperator ''+'' \<and> isOperator ''*''
   \<and> invalidFormula specMessages = ''invalidFormula''
   \<and> errorMessage (evaluate specMessages sampleResolver [''A1'', ''+'', ''*'', ''4''] newEvaluator)
     = ''#CIRC''
   \<and> errorMessage (evaluate specMessages sampleResolver [''A1'', ''+'', ''*'', ''4''] newEvaluator)
     \<noteq> invalidFormula specMessages"
  by (simp add: eval_simps sample_simps)

text \<open>
  C6, as amended. When the scan of a formula reaches an operator token that is
  immediately followed by another operator token (and that the resolver does not take
  for a cell label), the scan ends there: \<^verbatim>\<open>evaluateExpression\<close> returns the last value
  pushed so far, or 0 when there is none or it is falsy, and \<^verbatim>\<open>evaluate\<close> ends with the
  \<^verbatim>\<open>invalidFormula\<close> message as its error and with that value as its result.
\<close>

theorem consecutive_operators:
  assumes reach:
      "fst (scanPrefix msgs mem pre (op1 # op2 # post) [] [] s) = Normal (values, operators)"
    and ops: "isOperator op1" "isOperator op2"
    and nocell: "\<not> isCellReference mem op1"
  shows "fst (evaluateExpression msgs mem (pre @ op1 # op2 # post) s) = Inr (orZero (peek values))
       \<and> errorMessage (evaluate msgs mem (pre @ op1 # op2 # post) s) = invalidFormula msgs
       \<and> result (evaluate msgs mem (pre @ op1 # op2 # post) s) = orZero (peek values)"
proof -
  let ?formula = "pre @ op1 # op2 # post"
  from ops(1) have nn: "\<not> isNumber op1" by (rule isOperator_not_isNumber)
  from ops(1) have npar: "op1 \<noteq> ''(''" "op1 \<noteq> '')''" by (auto simp: isOperator_def)
  have body: "loopBody msgs mem op1 (op2 # post) values operators t
                = (Return (orZero (peek values)), t\<lparr>errorMessage := invalidFormula msgs\<rparr>)" for t
    using nn npar nocell ops by (simp add: loopBody_def)
  have run: "evaluateExpression msgs mem ?formula t
               = (Inr (orZero (peek values)), t\<lparr>errorMessage := invalidFormula msgs\<rparr>)" for t
  proof -
    obtain c t' where sp: "scanPrefix msgs mem pre (op1 # op2 # post) [] [] t = (c, t')"
      by (cases "scanPrefix msgs mem pre (op1 # op2 # post) [] [] t")
    from scanPrefix_fst [of msgs mem pre "op1 # op2 # post" "[]" "[]" t s] sp reach
    have c: "c = Normal (values, operators)" by simp
    from scanPrefix_effect sp c have "t' = t" by blast
    with sp c body show ?thesis
      by (simp add: evaluateExpression_def forLoop_append)
  qed
  have ne: "?formula \<noteq> []" by simp
  have np: "?formula \<noteq> [''('', '')'']"
    using npar by (cases pre) auto
  from ne np obtain s1 where
    ev: "evaluate msgs mem ?formula s =
           (case evaluateExpression msgs mem ?formula s1 of
              (Inr r, s2) \<Rightarrow> s2\<lparr>result := r\<rparr>
            | (Inl e, s2) \<Rightarrow>
                if errorMessage s2 = [] then s2\<lparr>errorMessage := invalidFormula msgs\<rparr> else s2)"
    using evaluate_general [of ?formula s msgs mem] by blast
  from ev run [of s1] run [of s] show ?thesis by simp
qed

theorem consecutive_operators_witness:
  "fst (scanPrefix specMessages sampleResolver [''3''] [''+'', ''*'', ''4''] [] [] sampleEvaluator)
     = Normal ([Fin 3], [])
   \<and> isOperator ''+'' \<and> isOperator ''*'' \<and> \<not> isCellReference sampleResolver ''+''
   \<and> errorMessage (evaluate specMessages sampleResolver [''3'', ''+'', ''*'', ''4''] sampleEvaluator)
     = ''invalidFormula''
   \<and> result (evaluate specMessages sampleResolver [''3'', ''+'', ''*'', ''4''] sampleEvaluator)
     = Fin 3"
proof -
  have h: "fst (scanPrefix specMessages sampleResolver [''3''] (''+'' # ''*'' # [''4'']) [] []
             sampleEvaluator) = Normal ([Fin 3], [])"
    "isOperator ''+''" "isOperator ''*''" "\<not> isCellReference sampleResolver ''+''"
    by (simp_all add: eval_simps sample_simps)
  from consecutive_operators [OF h] h show ?thesis
    by (simp add: sample_simps)
qed



text \<open>
  C8. With a resolver that does not take \<^verbatim>\<open>)\<close> for a cell label, the token \<^verbatim>\<open>)\<close> met
  with an empty operator stack ends normally and changes neither the stacks nor the
  fields, whatever follows; and evaluating \<^verbatim>\<open>3 )\<close> sets the result to 3 and the error to
  the empty string.
\<close>

theorem close_paren_empty_stack:
  assumes "\<not> isValidCellLabel mem '')''"
  shows "loopBody msgs mem '')'' rest values [] s = (Normal (values, []), s)
       \<and> evaluate msgs mem [''3'', '')''] s = s\<lparr>errorMessage := [], result := Fin 3\<rparr>"
  using assms by (simp add: eval_simps)

theorem close_paren_empty_stack_witness:
  "\<not> isValidCellLabel sampleResolver '')''
   \<and> loopBody specMessages sampleResolver '')'' [''+'', ''1''] [Fin 3] [] sampleEvaluator
     = (Normal ([Fin 3], []), sampleEvaluator)
   \<and> evaluate specMessages sampleResolver [''3'', '')''] sampleEvaluator
     = \<lparr>errorMessage = [], result = Fin 3\<rparr>"
proof -
  have h: "\<not> isValidCellLabel sampleResolver '')''"
    by (simp add: sampleResolver_def)
  from close_paren_empty_stack [OF h, of specMessages "[''+'', ''1'']" "[Fin 3]" sampleEvaluator] h
  show ?thesis
    by (simp add: sampleEvaluator_def)
qed

text \<open>
  The claim that \<^verbatim>\<open>( + 3 )\<close> is reported with the result NaN fails: the result that
  \<^verbatim>\<open>evaluate\<close> stores is not NaN.
\<close>

theorem unchecked_pop_counterexample:
  "errorMessage (evaluate specMessages sampleResolver [''('', ''+'', ''3'', '')''] newEvaluator) = []
   \<and> result (evaluate specMessages sampleResolver [''('', ''+'', ''3'', '')''] newEvaluator) \<noteq> NaN"
  by (simp add: eval_simps sample_simps)

text \<open>
  C9, as amended. \<^verbatim>\<open>applyOperator\<close> pops its operands unchecked: applied to \<^verbatim>\<open>+\<close> and
  the one value 3 it ends normally and pushes NaN. So on \<^verbatim>\<open>( + 3 )\<close> the \<^verbatim>\<open>)\<close> branch
  leaves NaN as the only value, and the final \<^verbatim>\<open>values.pop() || 0\<close> turns it into 0:
  \<^verbatim>\<open>evaluate\<close> ends with the empty error and the result 0.
\<close>

theorem unchecked_pop:
  assumes "\<not> isValidCellLabel mem ''(''" and "\<not> isValidCellLabel mem ''+''"
    and "\<not> isValidCellLabel mem '')''"
  shows "applyOperator msgs ''+'' [Fin 3] s = (Normal [NaN], s)
       \<and> loopBody msgs mem '')'' [] [Fin 3] [''+'', ''(''] s = (Normal ([NaN], []), s)
       \<and> evaluate msgs mem [''('', ''+'', ''3'', '')''] s = s\<lparr>errorMessage := [], result := Fin 0\<rparr>"
  using assms by (simp add: eval_simps)

theorem unchecked_pop_witness:
  "\<not> isValidCellLabel sampleResolver ''('' \<and> \<not> isValidCellLabel sampleResolver ''+''
   \<and> \<not> isValidCellLabel sampleResolver '')''
   \<and> applyOperator specMessages ''+'' [Fin 3] sampleEvaluator = (Normal [NaN], sampleEvaluator)
   \<and> evaluate specMessages sampleResolver [''('', ''+'', ''3'', '')''] sampleEvaluator
     = \<lparr>errorMessage = [], result = Fin 0\<rparr>"
proof -
  have h: "\<not> isValidCellLabel sampleResolver ''(''" "\<not> isValidCellLabel sampleResolver ''+''"
    "\<not> isValidCellLabel sampleResolver '')''"
    by (simp_all add: sampleResolver_def)
  from unchecked_pop [OF h, of specMessages sampleEvaluator] h show ?thesis
    by (simp add: sampleEvaluator_def)
qed

text \<open>
  C10. A token that is no number, no valid cell label and none of \<^verbatim>\<open>(\<close>, \<^verbatim>\<open>)\<close>, \<^verbatim>\<open>+\<close>,
  \<^verbatim>\<open>-\<close>, \<^verbatim>\<open>*\<close>, \<^verbatim>\<open>/\<close> is skipped by the loop: its iteration ends normally and changes
  neither the stacks nor the fields. A formula of one such token evaluates to the
  result 0 with the empty error, and \<^verbatim>\<open>3\<close>, the token, \<^verbatim>\<open>4\<close> evaluates to the result 4
  with the empty error.
\<close>

theorem unknown_token_skipped:
  assumes "\<not> isNumber token" and "\<not> isCellReference mem token"
    and "token \<notin> set [''('', '')'', ''+'', ''-'', ''*'', ''/'']"
  shows "loopBody msgs mem token rest values operators s = (Normal (values, operators), s)
       \<and> evaluate msgs mem [token] s = s\<lparr>errorMessage := [], result := Fin 0\<rparr>
       \<and> evaluate msgs mem [''3'', token, ''4''] s = s\<lparr>errorMessage := [], result := Fin 4\<rparr>"
proof -
  from assms have body:
    "loopBody msgs mem token r v ops t = (Normal (v, ops), t)" for r v ops t
    by (simp add: loopBody_def isOperator_def)
  from assms(3) have nop: "\<not> isOperator token"
    by (simp add: isOperator_def)
  have one: "evaluate msgs mem [token] s = s\<lparr>errorMessage := [], result := Fin 0\<rparr>"
    using nop by (simp add: evaluate_def evaluateExpression_def body)
  have num: "loopBody msgs mem ''3'' [token, ''4''] [] [] t = (Normal ([Fin 3], []), t)"
    "loopBody msgs mem ''4'' [] [Fin 3] [] t = (Normal ([Fin 4, Fin 3], []), t)" for t
    using assms(3) by (simp_all add: loopBody_def isNumber_def Number_examples)
  have three: "evaluate msgs mem [''3'', token, ''4''] s
                 = s\<lparr>errorMessage := [], result := Fin 4\<rparr>"
    by (simp add: evaluate_def evaluateExpression_def body num isOperator_def)
  from body one three show ?thesis by simp
qed

theorem unknown_token_skipped_witness:
  "\<not> isNumber ''foo'' \<and> \<not> isCellReference sampleResolver ''foo''
   \<and> evaluate specMessages sampleResolver [''foo''] sampleEvaluator
     = \<lparr>errorMessage = [], result = Fin 0\<rparr>
   \<and> evaluate specMessages sampleResolver [''3'', ''foo'', ''4''] sampleEvaluator
     = \<lparr>errorMessage = [], result = Fin 4\<rparr>"
proof -
  have h: "\<not> isNumber ''foo''" "\<not> isCellReference sampleResolver ''foo''"
    "''foo'' \<notin> set [''('', '')'', ''+'', ''-'', ''*'', ''/'']"
    by (simp_all add: isNumber_def Number_examples isCellReference_def sampleResolver_def)
  from unknown_token_skipped [OF h, of specMessages _ _ _ sampleEvaluator] h show ?thesis
    by (simp add: sampleEvaluator_def)
qed

end
